theory Spec2Isabelle
  imports Main
begin

section \<open>Rellume register file (\<open>llregfile-internal.h\<close>)\<close>

text \<open>
  Values of the generated code are \<open>llvm::Value*\<close> pointers. The register file never
  looks inside them, so the pointee type is a type variable and a pointer is an option:
  \<open>None\<close> is \<open>nullptr\<close>, which the register file uses for an empty slot.
\<close>

type_synonym 'v ptr = "'v option"

subsection \<open>\<open>Facet::Value\<close>\<close>

text \<open>
  The enumerators of \<open>Facet::Value\<close>. \<open>I256\<close> is declared only when
  \<open>LL_VECTOR_REGISTER_SIZE >= 256\<close>; the enumerator \<open>MAX\<close> is written \<open>Facet_MAX\<close>
  here. \<open>IVEC\<close> is a second name of \<open>I128\<close> or \<open>I256\<close> and adds no value.
\<close>

datatype Facet =
    I64
  | I32 | I16 | I8 | I8H | PTR
  | I128
  | V1I8 | V2I8 | V4I8 | V8I8 | V16I8
  | V1I16 | V2I16 | V4I16 | V8I16
  | V1I32 | V2I32 | V4I32
  | V1I64 | V2I64
  | V1F32 | V2F32 | V4F32
  | V1F64 | V2F64
  | F32 | F64
  | I256
  | I | VI8 | VI16 | VI32 | VI64 | VF32 | VF64
  | Facet_MAX

text \<open>
  \<open>LL_VECTOR_REGISTER_SIZE\<close> is a macro of \<open>llcommon-internal.h\<close>; every definition
  that depends on it takes it as the parameter \<open>vs\<close>.
\<close>

definition storage_facets :: "nat \<Rightarrow> Facet list" where
  "storage_facets vs =
     [I64, I32, I16, I8, I8H, PTR,
      I128,
      V1I8, V2I8, V4I8, V8I8, V16I8,
      V1I16, V2I16, V4I16, V8I16,
      V1I32, V2I32, V4I32,
      V1I64, V2I64,
      V1F32, V2F32, V4F32,
      V1F64, V2F64,
      F32, F64]
     @ (if 256 \<le> vs then [I256] else [])"

definition pseudo_facets :: "Facet list" where
  "pseudo_facets = [I, VI8, VI16, VI32, VI64, VF32, VF64]"

definition Facet_enumerators :: "nat \<Rightarrow> Facet list" where
  "Facet_enumerators vs = storage_facets vs @ pseudo_facets @ [Facet_MAX]"

text \<open>
  An enumerator without initialiser has the value of its position in the declaration.
  For something that is not in the list the function gives the length of the list.
\<close>

fun enum_value :: "'a list \<Rightarrow> 'a \<Rightarrow> nat" where
  "enum_value [] x = 0"
| "enum_value (y # ys) x = (if x = y then 0 else Suc (enum_value ys x))"

text \<open>\<open>static_cast<int>(v)\<close> for \<open>v\<close> of type \<open>Facet::Value\<close>.\<close>

definition Facet_int :: "nat \<Rightarrow> Facet \<Rightarrow> nat" where
  "Facet_int vs v = enum_value (Facet_enumerators vs) v"

text \<open>A facet proper: a declared enumerator other than the bound \<open>MAX\<close>.\<close>

definition is_facet :: "nat \<Rightarrow> Facet \<Rightarrow> bool" where
  "is_facet vs v = (v \<in> set (storage_facets vs @ pseudo_facets))"

subsection \<open>\<open>ValueMap::LookupTable\<close>\<close>

text \<open>The arrays \<open>T f[N]\<close> and \<open>unsigned b[M]\<close> are the fields \<open>lt_f\<close> and \<open>lt_b\<close>.\<close>

record 't LookupTable =
  lt_f :: "'t list"
  lt_b :: "nat list"

text \<open>
  The loop of the constructor, \<open>f[i] = elem; b[static_cast<int>(elem)] = 1 + i++;\<close>
  for each \<open>elem\<close> of the initialiser list. A store outside \<open>f\<close> or \<open>b\<close> has no
  defined behaviour in the source and is \<open>None\<close> here. \<open>i\<close> stays below the size of
  \<open>f\<close>, an \<open>int\<close>, so \<open>1 + i\<close> does not wrap.
\<close>

fun LookupTable_loop ::
  "('t \<Rightarrow> nat) \<Rightarrow> 't list \<Rightarrow> nat \<Rightarrow> 't LookupTable \<Rightarrow> 't LookupTable option" where
  "LookupTable_loop cast [] i t = Some t"
| "LookupTable_loop cast (elem # il) i t =
     (if i < length (lt_f t) \<and> cast elem < length (lt_b t)
      then LookupTable_loop cast il (i + 1)
             (t\<lparr>lt_f := (lt_f t)[i := elem], lt_b := (lt_b t)[cast elem := 1 + i]\<rparr>)
      else None)"

text \<open>
  \<open>LookupTable<T, N, M>(il) : f(), b()\<close>: both arrays are zeroed first; \<open>zero\<close> is the
  value \<open>T()\<close>.
\<close>

definition LookupTable_ctor ::
  "('t \<Rightarrow> nat) \<Rightarrow> 't \<Rightarrow> nat \<Rightarrow> nat \<Rightarrow> 't list \<Rightarrow> 't LookupTable option" where
  "LookupTable_ctor cast zero N M il =
     LookupTable_loop cast il 0 \<lparr>lt_f = replicate N zero, lt_b = replicate M 0\<rparr>"

subsection \<open>\<open>ValueMap<E...>\<close>\<close>

text \<open>
  \<open>table\<close> is \<open>LookupTable<Facet::Value, sizeof...(E), Facet::MAX>({E...})\<close>, one per
  instantiation; \<open>Facet::Value()\<close> is the enumerator of value 0, \<open>I64\<close>.
\<close>

definition ValueMap_table :: "nat \<Rightarrow> Facet list \<Rightarrow> Facet LookupTable option" where
  "ValueMap_table vs E =
     LookupTable_ctor (Facet_int vs) I64 (length E) (Facet_int vs Facet_MAX) E"

text \<open>The object itself holds \<open>llvm::Value* values[sizeof...(E)]\<close>, the field \<open>vm_values\<close>.\<close>

record 'v ValueMap =
  vm_values :: "'v ptr list"

text \<open>
  How a call can fail. The first two are what the source can do: a failed \<open>assert\<close>, and
  an access outside an array. The last two are the failures the specification gives to
  \<open>GetValue\<close>: no facet of the register is populated (fatal), and the backend cannot
  convert (reported for the instruction).
\<close>

datatype failure = AssertionFailure | OutOfBounds | NoPopulatedFacet | ConversionFailed

text \<open>
  \<open>at(v)\<close>: \<open>assert(table.b[static_cast<int>(v)] > 0)\<close>, then a reference to
  \<open>values[table.b[static_cast<int>(v)] - 1]\<close>. The reference is the index of the slot.
  The assertion is taken as compiled in (\<open>NDEBUG\<close> not defined). Reading \<open>b\<close> past its
  end, which the source does for \<open>MAX\<close>, is \<open>OutOfBounds\<close>.
\<close>

definition ValueMap_at :: "nat \<Rightarrow> Facet LookupTable \<Rightarrow> Facet \<Rightarrow> failure + nat" where
  "ValueMap_at vs t v =
     (if \<not> Facet_int vs v < length (lt_b t) then Inl OutOfBounds
      else if \<not> lt_b t ! Facet_int vs v > 0 then Inl AssertionFailure
      else Inr (lt_b t ! Facet_int vs v - 1))"

text \<open>\<open>facets()\<close> returns \<open>table.f\<close>.\<close>

definition ValueMap_facets :: "Facet LookupTable \<Rightarrow> Facet list" where
  "ValueMap_facets t = lt_f t"

text \<open>\<open>clear()\<close>: \<open>std::fill_n(values, sizeof...(E), nullptr)\<close>.\<close>

definition ValueMap_clear :: "'v ValueMap \<Rightarrow> 'v ValueMap" where
  "ValueMap_clear m = m\<lparr>vm_values := replicate (length (vm_values m)) None\<rparr>"

text \<open>
  Reading and writing through the reference that \<open>at\<close> returns: \<open>at(v)\<close> used as a
  value, and \<open>at(v) = x\<close>. \<open>values\<close> has \<open>sizeof...(E)\<close> elements; a map of another size
  is not an object of the class, and an index outside it is \<open>OutOfBounds\<close>.
\<close>

definition ValueMap_get ::
  "nat \<Rightarrow> Facet LookupTable \<Rightarrow> 'v ValueMap \<Rightarrow> Facet \<Rightarrow> failure + 'v ptr" where
  "ValueMap_get vs t m v =
     (case ValueMap_at vs t v of
        Inl e \<Rightarrow> Inl e
      | Inr i \<Rightarrow> if i < length (vm_values m) then Inr (vm_values m ! i) else Inl OutOfBounds)"

definition ValueMap_put ::
  "nat \<Rightarrow> Facet LookupTable \<Rightarrow> 'v ValueMap \<Rightarrow> Facet \<Rightarrow> 'v ptr \<Rightarrow> failure + 'v ValueMap" where
  "ValueMap_put vs t m v x =
     (case ValueMap_at vs t v of
        Inl e \<Rightarrow> Inl e
      | Inr i \<Rightarrow> if i < length (vm_values m)
                then Inr (m\<lparr>vm_values := (vm_values m)[i := x]\<rparr>) else Inl OutOfBounds)"

text \<open>An object of \<open>ValueMap<E...>\<close> has exactly \<open>sizeof...(E)\<close> slots.\<close>

definition ValueMap_wf :: "Facet list \<Rightarrow> 'v ValueMap \<Rightarrow> bool" where
  "ValueMap_wf E m = (length (vm_values m) = length E)"

text \<open>The two instantiations, \<open>ValueMapGp\<close> and \<open>ValueMapSse\<close>.\<close>

definition ValueMapGp_E :: "Facet list" where
  "ValueMapGp_E = [I64, I32, I16, I8, I8H, PTR]"

definition ValueMapSse_E :: "nat \<Rightarrow> Facet list" where
  "ValueMapSse_E vs =
     [I128]
     @ (if 256 \<le> vs then [I256] else [])
     @ [I8, V1I8, V2I8, V4I8, V8I8, V16I8,
        I16, V1I16, V2I16, V4I16, V8I16,
        I32, V1I32, V2I32, V4I32,
        I64, V1I64, V2I64,
        F32, V1F32, V2F32, V4F32,
        F64, V1F64, V2F64]"

definition ValueMapGp_table :: "nat \<Rightarrow> Facet LookupTable option" where
  "ValueMapGp_table vs = ValueMap_table vs ValueMapGp_E"

definition ValueMapSse_table :: "nat \<Rightarrow> Facet LookupTable option" where
  "ValueMapSse_table vs = ValueMap_table vs (ValueMapSse_E vs)"

subsection \<open>\<open>RegFile::FlagCache\<close>\<close>

record 'v FlagCache =
  valid :: bool
  lhs :: "'v ptr"
  rhs :: "'v ptr"

text \<open>
  \<open>FlagCache() : valid(false) {}\<close> initialises \<open>valid\<close> only; \<open>lhs\<close> and \<open>rhs\<close> keep
  whatever the storage held. The constructor is therefore a function of the storage it
  is run on.
\<close>

definition FlagCache_ctor :: "'v FlagCache \<Rightarrow> 'v FlagCache" where
  "FlagCache_ctor storage = storage\<lparr>valid := False\<rparr>"

text \<open>\<open>void update(op1, op2) { lhs = op1; rhs = op2; valid = true; }\<close>\<close>

definition FlagCache_update :: "'v FlagCache \<Rightarrow> 'v ptr \<Rightarrow> 'v ptr \<Rightarrow> 'v FlagCache" where
  "FlagCache_update c op1 op2 = c\<lparr>lhs := op1, rhs := op2, valid := True\<rparr>"

text \<open>
  What can be done to a constructed \<open>FlagCache\<close>. The struct declares one member
  function, \<open>update\<close>. Its three members are public, so each of them can be written; and
  the struct has the copy assignment that the language gives it, which copies all three
  members from another cache. \<open>RegFile::GetFlagCache()\<close> returns a reference through
  which all of this can be done. A lifetime of the object is a list of such operations,
  run in order.
\<close>

datatype 'v FlagCache_op =
    Update "'v ptr" "'v ptr"
  | Assign "'v FlagCache"
  | Write_valid bool
  | Write_lhs "'v ptr"
  | Write_rhs "'v ptr"

fun FlagCache_call :: "'v FlagCache \<Rightarrow> 'v FlagCache_op \<Rightarrow> 'v FlagCache" where
  "FlagCache_call c (Update op1 op2) = FlagCache_update c op1 op2"
| "FlagCache_call c (Assign other) = other"
| "FlagCache_call c (Write_valid v) = c\<lparr>valid := v\<rparr>"
| "FlagCache_call c (Write_lhs x) = c\<lparr>lhs := x\<rparr>"
| "FlagCache_call c (Write_rhs x) = c\<lparr>rhs := x\<rparr>"

fun FlagCache_calls :: "'v FlagCache \<Rightarrow> 'v FlagCache_op list \<Rightarrow> 'v FlagCache" where
  "FlagCache_calls c [] = c"
| "FlagCache_calls c (x # xs) = FlagCache_calls (FlagCache_call c x) xs"

text \<open>
  The operations that store \<open>false\<close> in \<open>valid\<close>: a write of \<open>false\<close> to the field, and
  the assignment of a cache that is not valid.
\<close>

fun clears_valid :: "'v FlagCache_op \<Rightarrow> bool" where
  "clears_valid (Update op1 op2) = False"
| "clears_valid (Assign other) = (\<not> valid other)"
| "clears_valid (Write_valid v) = (\<not> v)"
| "clears_valid (Write_lhs x) = False"
| "clears_valid (Write_rhs x) = False"

subsection \<open>\<open>RegFile\<close>\<close>

text \<open>
  The data members: \<open>llvm_block\<close>, \<open>regs_gp[LL_RI_GPMax]\<close>, \<open>regs_sse[LL_RI_XMMMax]\<close>,
  \<open>reg_ip\<close>, \<open>flags[RFLAG_Max]\<close> and \<open>flag_cache\<close>. The two register counts are
  constants of \<open>rellume/instr.h\<close>; they are the lengths of the two lists.
\<close>

record ('b, 'v) RegFile =
  llvm_block :: "'b ptr"
  regs_gp :: "'v ValueMap list"
  regs_sse :: "'v ValueMap list"
  reg_ip :: "'v ptr"
  flags :: "'v ptr list"
  flag_cache :: "'v FlagCache"

text \<open>
  The flags are numbered \<open>RFLAG_ZF = 0\<close>, \<open>RFLAG_SF\<close>, \<open>RFLAG_PF\<close>, \<open>RFLAG_CF\<close>,
  \<open>RFLAG_OF\<close>, \<open>RFLAG_AF\<close>, and \<open>RFLAG_Max\<close> is their number.
\<close>

definition RFLAG_Max :: nat where
  "RFLAG_Max = 6"

text \<open>
  The sizes that the types of the members fix: every element of \<open>regs_gp\<close> is a
  \<open>ValueMapGp\<close>, every element of \<open>regs_sse\<close> a \<open>ValueMapSse\<close>, and \<open>flags\<close> has
  \<open>RFLAG_Max\<close> elements.
\<close>

definition RegFile_wf :: "nat \<Rightarrow> ('b, 'v) RegFile \<Rightarrow> bool" where
  "RegFile_wf vs s =
     (list_all (ValueMap_wf ValueMapGp_E) (regs_gp s)
      \<and> list_all (ValueMap_wf (ValueMapSse_E vs)) (regs_sse s)
      \<and> length (flags s) = RFLAG_Max)"

text \<open>
  \<open>RegFile(llvm::BasicBlock* llvm_block) : llvm_block(llvm_block), flag_cache() {}\<close>.
  The members that the initialiser list does not name are default-initialised: arrays of
  pointers and a pointer, which keep what the storage held.
\<close>

definition RegFile_ctor :: "('b, 'v) RegFile \<Rightarrow> 'b ptr \<Rightarrow> ('b, 'v) RegFile" where
  "RegFile_ctor storage blk =
     storage\<lparr>llvm_block := blk, flag_cache := FlagCache_ctor (flag_cache storage)\<rparr>"

text \<open>\<open>GetFlagCache()\<close> returns a reference to \<open>flag_cache\<close>.\<close>

definition GetFlagCache :: "('b, 'v) RegFile \<Rightarrow> 'v FlagCache" where
  "GetFlagCache s = flag_cache s"

text \<open>The state in which every slot is empty: what \<open>clear()\<close> leaves, in every place.\<close>

definition all_null :: "'v ptr list \<Rightarrow> bool" where
  "all_null xs = list_all (\<lambda>x. x = None) xs"

definition RegFile_all_empty :: "('b, 'v) RegFile \<Rightarrow> bool" where
  "RegFile_all_empty s =
     (list_all (\<lambda>m. all_null (vm_values m)) (regs_gp s)
      \<and> list_all (\<lambda>m. all_null (vm_values m)) (regs_sse s)
      \<and> reg_ip s = None
      \<and> all_null (flags s))"

text \<open>
  The members that the class declares, in the order of the source, each with its access
  and what it is.
\<close>

datatype access = Public | Private

datatype member_kind = NestedType | Constructor | MemberFunction | DataMember

definition RegFile_members :: "(string \<times> access \<times> member_kind) list" where
  "RegFile_members =
     [(''FlagCache'', Public, NestedType),
      (''RegFile'', Public, Constructor),
      (''GetReg'', Public, MemberFunction),
      (''SetReg'', Public, MemberFunction),
      (''Rename'', Public, MemberFunction),
      (''GetFlag'', Public, MemberFunction),
      (''SetFlag'', Public, MemberFunction),
      (''GetFlagCache'', Public, MemberFunction),
      (''llvm_block'', Private, DataMember),
      (''regs_gp'', Private, DataMember),
      (''regs_sse'', Private, DataMember),
      (''reg_ip'', Private, DataMember),
      (''flags'', Private, DataMember),
      (''flag_cache'', Private, DataMember)]"

definition public_functions :: "(string \<times> access \<times> member_kind) list \<Rightarrow> string list" where
  "public_functions ms = map fst (filter (\<lambda>m. snd m = (Public, MemberFunction)) ms)"

subsection \<open>\<open>GetReg\<close>, \<open>SetReg\<close> and \<open>Rename\<close>\<close>

text \<open>
  The class declares \<open>GetReg\<close>, \<open>SetReg\<close> and \<open>Rename\<close>; their bodies are in
  \<open>llregfile.cc\<close>, and \<open>LLReg\<close> is declared in \<open>rellume/instr.h\<close>. Neither file is among
  the sources, so this subsection follows the specification, which calls the first two
  \<open>GetValue\<close> and \<open>SetValue\<close>.
\<close>

text \<open>
  Modelled from the spec: \<open>LLReg\<close> (\<open>rellume/instr.h\<close>) is missing. "Register identifier:
  an opaque key composed of a register class (general-purpose or vector) and an index
  within that class."
\<close>

datatype RegClass = GeneralPurpose | Vector

record LLReg =
  reg_class :: RegClass
  reg_index :: nat

text \<open>
  Modelled from the spec: the choice of the map of a register is part of the missing
  bodies. "One ValueMap per general-purpose register, one per vector register"; "the core
  does not interpret [the identifier] beyond indexing its per-class arrays." An index
  outside the array of its class is \<open>OutOfBounds\<close>.
\<close>

definition RegClass_table :: "nat \<Rightarrow> RegClass \<Rightarrow> Facet LookupTable option" where
  "RegClass_table vs c =
     (case c of GeneralPurpose \<Rightarrow> ValueMapGp_table vs | Vector \<Rightarrow> ValueMapSse_table vs)"

definition RegClass_facets :: "nat \<Rightarrow> RegClass \<Rightarrow> Facet list" where
  "RegClass_facets vs c =
     (case c of GeneralPurpose \<Rightarrow> ValueMapGp_E | Vector \<Rightarrow> ValueMapSse_E vs)"

definition RegClass_regs :: "('b, 'v) RegFile \<Rightarrow> RegClass \<Rightarrow> 'v ValueMap list" where
  "RegClass_regs s c = (case c of GeneralPurpose \<Rightarrow> regs_gp s | Vector \<Rightarrow> regs_sse s)"

definition RegFile_entry :: "('b, 'v) RegFile \<Rightarrow> LLReg \<Rightarrow> failure + 'v ValueMap" where
  "RegFile_entry s reg =
     (if reg_index reg < length (RegClass_regs s (reg_class reg))
      then Inr (RegClass_regs s (reg_class reg) ! reg_index reg)
      else Inl OutOfBounds)"

definition RegFile_set_entry ::
  "('b, 'v) RegFile \<Rightarrow> LLReg \<Rightarrow> 'v ValueMap \<Rightarrow> ('b, 'v) RegFile" where
  "RegFile_set_entry s reg m =
     (case reg_class reg of
        GeneralPurpose \<Rightarrow> s\<lparr>regs_gp := (regs_gp s)[reg_index reg := m]\<rparr>
      | Vector \<Rightarrow> s\<lparr>regs_sse := (regs_sse s)[reg_index reg := m]\<rparr>)"

text \<open>
  Modelled from the spec: as above, the slot of a facet of a register is reached through
  the map of the register. This reads the slot and changes nothing.
\<close>

definition RegFile_slot :: "nat \<Rightarrow> ('b, 'v) RegFile \<Rightarrow> LLReg \<Rightarrow> Facet \<Rightarrow> failure + 'v ptr" where
  "RegFile_slot vs s reg facet =
     (case RegClass_table vs (reg_class reg) of
        None \<Rightarrow> Inl OutOfBounds
      | Some t \<Rightarrow>
         (case RegFile_entry s reg of
            Inl e \<Rightarrow> Inl e
          | Inr m \<Rightarrow> ValueMap_get vs t m facet))"

text \<open>
  Modelled from the spec: the order in which \<open>GetValue\<close> looks for a source facet is
  part of the missing body of \<open>GetReg\<close>. "Scan \<open>reg\<close>'s supported facets in a fixed
  deterministic priority"; the specification leaves the priority open, so it is the
  parameter \<open>rank\<close>: for the requested facet, the facets of the class are scanned by
  increasing rank, and in the order of \<open>facets()\<close> among equals.
\<close>

definition scan_order :: "(Facet \<Rightarrow> Facet \<Rightarrow> nat) \<Rightarrow> Facet LookupTable \<Rightarrow> Facet \<Rightarrow> Facet list" where
  "scan_order rank t facet = sort_key (rank facet) (ValueMap_facets t)"

fun first_populated ::
  "nat \<Rightarrow> Facet LookupTable \<Rightarrow> 'v ValueMap \<Rightarrow> Facet list \<Rightarrow> (Facet \<times> 'v) option" where
  "first_populated vs t m [] = None"
| "first_populated vs t m (g # gs) =
     (case ValueMap_get vs t m g of
        Inr (Some w) \<Rightarrow> Some (g, w)
      | _ \<Rightarrow> first_populated vs t m gs)"

text \<open>
  Modelled from the spec: the body of \<open>GetReg\<close> (\<open>llregfile.cc\<close>) is missing.
  "\<open>GetValue(reg, facet)\<close>: if the slot for \<open>facet\<close> on \<open>reg\<close> is populated, return it
  unchanged (no conversion). Otherwise, scan \<open>reg\<close>'s supported facets in a fixed
  deterministic priority to find a populated source facet, request a conversion from the
  backend collaborator, and populate the requested slot with the result before returning
  it. Precondition: at least one facet of \<open>reg\<close> is populated; violation is fatal."
  The conversion of the backend is the parameter \<open>convert\<close>, from the source facet, the
  target facet and the source value to the new value, or to nothing when it fails. The
  result is the value and the register file after the call.
\<close>

definition GetReg ::
  "(Facet \<Rightarrow> Facet \<Rightarrow> 'v \<Rightarrow> 'v option) \<Rightarrow> (Facet \<Rightarrow> Facet \<Rightarrow> nat) \<Rightarrow> nat
   \<Rightarrow> ('b, 'v) RegFile \<Rightarrow> LLReg \<Rightarrow> Facet \<Rightarrow> failure + ('v \<times> ('b, 'v) RegFile)" where
  "GetReg convert rank vs s reg facet =
     (case RegClass_table vs (reg_class reg) of
        None \<Rightarrow> Inl OutOfBounds
      | Some t \<Rightarrow>
         (case RegFile_entry s reg of
            Inl e \<Rightarrow> Inl e
          | Inr m \<Rightarrow>
             (case ValueMap_get vs t m facet of
                Inl e \<Rightarrow> Inl e
              | Inr (Some v) \<Rightarrow> Inr (v, s)
              | Inr None \<Rightarrow>
                 (case first_populated vs t m (scan_order rank t facet) of
                    None \<Rightarrow> Inl NoPopulatedFacet
                  | Some (g, w) \<Rightarrow>
                     (case convert g facet w of
                        None \<Rightarrow> Inl ConversionFailed
                      | Some r \<Rightarrow>
                         (case ValueMap_put vs t m facet (Some r) of
                            Inl e \<Rightarrow> Inl e
                          | Inr m' \<Rightarrow> Inr (r, RegFile_set_entry s reg m')))))))"

text \<open>What a call of \<open>GetReg\<close> returns to its caller: the value, or the failure.\<close>

definition GetReg_result ::
  "(Facet \<Rightarrow> Facet \<Rightarrow> 'v \<Rightarrow> 'v option) \<Rightarrow> (Facet \<Rightarrow> Facet \<Rightarrow> nat) \<Rightarrow> nat
   \<Rightarrow> ('b, 'v) RegFile \<Rightarrow> LLReg \<Rightarrow> Facet \<Rightarrow> failure + 'v" where
  "GetReg_result convert rank vs s reg facet =
     (case GetReg convert rank vs s reg facet of Inl e \<Rightarrow> Inl e | Inr (v, s') \<Rightarrow> Inr v)"

text \<open>
  Modelled from the spec: the body of \<open>SetReg\<close> (\<open>llregfile.cc\<close>) is missing.
  "\<open>SetValue(reg, facet, value, clearOtherFacets)\<close>: stores \<open>value\<close> into \<open>reg\<close>'s \<open>facet\<close>
  slot unconditionally. If \<open>clearOtherFacets\<close> is true, every other slot of \<open>reg\<close> is
  reset to empty. If false, other slots are left untouched. No conversion is performed on
  write." A facet that the class does not support fails in \<open>at\<close>.
\<close>

definition SetReg ::
  "nat \<Rightarrow> ('b, 'v) RegFile \<Rightarrow> LLReg \<Rightarrow> Facet \<Rightarrow> 'v ptr \<Rightarrow> bool \<Rightarrow> failure + ('b, 'v) RegFile" where
  "SetReg vs s reg facet val clear_facets =
     (case RegClass_table vs (reg_class reg) of
        None \<Rightarrow> Inl OutOfBounds
      | Some t \<Rightarrow>
         (case RegFile_entry s reg of
            Inl e \<Rightarrow> Inl e
          | Inr m \<Rightarrow>
             (case ValueMap_put vs t (if clear_facets then ValueMap_clear m else m) facet val of
                Inl e \<Rightarrow> Inl e
              | Inr m' \<Rightarrow> Inr (RegFile_set_entry s reg m'))))"

text \<open>
  Modelled from the spec: the body of \<open>Rename\<close> (\<open>llregfile.cc\<close>) is missing.
  "\<open>Rename(dst, src)\<close>: copies the entire populated/empty state of every facet slot from
  \<open>src\<close> to \<open>dst\<close> (same-class registers only)." Registers of two classes are a broken
  contract, an \<open>AssertionFailure\<close> here.
\<close>

definition Rename :: "('b, 'v) RegFile \<Rightarrow> LLReg \<Rightarrow> LLReg \<Rightarrow> failure + ('b, 'v) RegFile" where
  "Rename s reg_dst reg_src =
     (if reg_class reg_dst \<noteq> reg_class reg_src then Inl AssertionFailure
      else
        (case RegFile_entry s reg_src of
           Inl e \<Rightarrow> Inl e
         | Inr m \<Rightarrow>
            (case RegFile_entry s reg_dst of
               Inl e \<Rightarrow> Inl e
             | Inr _ \<Rightarrow> Inr (RegFile_set_entry s reg_dst m))))"

subsection \<open>An example register file\<close>

text \<open>
  Two general-purpose registers and one vector register, for a vector register size of
  128; a conversion that fails for the pointer facet; and the states that the calls used
  in the examples below lead to.
\<close>

definition ex_regfile :: "(nat, nat) RegFile" where
  "ex_regfile =
     \<lparr>llvm_block = Some 0,
      regs_gp = [\<lparr>vm_values = [Some 10, Some 11, None, None, None, None]\<rparr>,
                 \<lparr>vm_values = [Some 20, None, None, Some 23, None, None]\<rparr>],
      regs_sse = [\<lparr>vm_values = replicate 26 None\<rparr>],
      reg_ip = Some 1,
      flags = [None, None, None, None, None, None],
      flag_cache = \<lparr>valid = False, lhs = None, rhs = None\<rparr>\<rparr>"

definition ex_R0 :: LLReg where
  "ex_R0 = \<lparr>reg_class = GeneralPurpose, reg_index = 0\<rparr>"

definition ex_R1 :: LLReg where
  "ex_R1 = \<lparr>reg_class = GeneralPurpose, reg_index = 1\<rparr>"

definition ex_convert :: "Facet \<Rightarrow> Facet \<Rightarrow> nat \<Rightarrow> nat option" where
  "ex_convert g f w =
     (if f = PTR then None else Some (1000 * Facet_int 128 g + 100 * Facet_int 128 f + w))"

definition ex_rank :: "Facet \<Rightarrow> Facet \<Rightarrow> nat" where
  "ex_rank f g = 0"

definition ex_after_set :: "(nat, nat) RegFile" where
  "ex_after_set =
     ex_regfile\<lparr>regs_gp := [\<lparr>vm_values = [None, None, Some 77, None, None, None]\<rparr>,
                             \<lparr>vm_values = [Some 20, None, None, Some 23, None, None]\<rparr>]\<rparr>"

definition ex_after_rename :: "(nat, nat) RegFile" where
  "ex_after_rename =
     ex_regfile\<lparr>regs_gp := [\<lparr>vm_values = [Some 20, None, None, Some 23, None, None]\<rparr>,
                             \<lparr>vm_values = [Some 20, None, None, Some 23, None, None]\<rparr>]\<rparr>"

definition ex_after_rename_set :: "(nat, nat) RegFile" where
  "ex_after_rename_set =
     ex_regfile\<lparr>regs_gp := [\<lparr>vm_values = [None, Some 99, None, None, None, None]\<rparr>,
                             \<lparr>vm_values = [Some 20, None, None, Some 23, None, None]\<rparr>]\<rparr>"

section \<open>Properties\<close>

subsection \<open>Enumerator values\<close>

lemma enum_value_nth: "enum_value xs x < length xs \<Longrightarrow> xs ! enum_value xs x = x"
  by (induction xs) (auto split: if_splits)

lemma enum_value_mem: "x \<in> set xs \<Longrightarrow> enum_value xs x < length xs"
  by (induction xs) auto

lemma enum_value_inj:
  "enum_value xs x < length xs \<Longrightarrow> enum_value xs x = enum_value xs y \<Longrightarrow> x = y"
  by (metis enum_value_nth)

lemmas Facet_defs = Facet_int_def Facet_enumerators_def storage_facets_def pseudo_facets_def is_facet_def

lemma Facet_int_MAX: "Facet_int vs Facet_MAX = (if 256 \<le> vs then 36 else 35)"
  by (simp add: Facet_defs)

lemma Facet_int_lt_MAX: "Facet_int vs v < Facet_int vs Facet_MAX \<longleftrightarrow> is_facet vs v"
  by (cases v; cases "256 \<le> vs"; simp add: Facet_defs)

lemma is_facet_enumerator: "is_facet vs v \<Longrightarrow> v \<in> set (Facet_enumerators vs)"
  by (auto simp: is_facet_def Facet_enumerators_def)

lemma Facet_int_inj: "is_facet vs v \<Longrightarrow> Facet_int vs v = Facet_int vs w \<Longrightarrow> v = w"
  unfolding Facet_int_def
  by (rule enum_value_inj [OF enum_value_mem [OF is_facet_enumerator]])

lemma Facet_int_inj_on: "\<forall>e\<in>set E. is_facet vs e \<Longrightarrow> inj_on (Facet_int vs) (set E)"
  by (auto simp: inj_on_def dest: Facet_int_inj)

subsection \<open>The loop of the lookup table\<close>

lemma LookupTable_loop_lengths:
  "LookupTable_loop cast il i t = Some t' \<Longrightarrow>
     length (lt_f t') = length (lt_f t) \<and> length (lt_b t') = length (lt_b t)"
  by (induction il arbitrary: i t) (auto split: if_splits)

lemma LookupTable_loop_f:
  "LookupTable_loop cast il i t = Some t' \<Longrightarrow> i \<le> length (lt_f t) \<Longrightarrow>
     lt_f t' = take i (lt_f t) @ il @ drop (i + length il) (lt_f t)
     \<and> i + length il \<le> length (lt_f t)"
proof (induction il arbitrary: i t)
  case Nil
  then show ?case by simp
next
  case (Cons e il)
  let ?t1 = "t\<lparr>lt_f := (lt_f t)[i := e], lt_b := (lt_b t)[cast e := 1 + i]\<rparr>"
  from Cons.prems have i: "i < length (lt_f t)" and run: "LookupTable_loop cast il (i + 1) ?t1 = Some t'"
    by (auto split: if_splits)
  from Cons.IH [OF run] i
  have "lt_f t' = take (i + 1) ((lt_f t)[i := e]) @ il @ drop (i + 1 + length il) ((lt_f t)[i := e])"
    and le: "i + 1 + length il \<le> length (lt_f t)"
    by simp_all
  moreover have "take (i + 1) ((lt_f t)[i := e]) = take i (lt_f t) @ [e]"
    using i by (simp add: take_Suc_conv_app_nth)
  ultimately show ?case by simp
qed

lemma LookupTable_loop_b_other:
  "LookupTable_loop cast il i t = Some t' \<Longrightarrow> k \<notin> cast ` set il \<Longrightarrow> lt_b t' ! k = lt_b t ! k"
  by (induction il arbitrary: i t) (auto split: if_splits)

lemma LookupTable_loop_b_elem:
  "LookupTable_loop cast il i t = Some t' \<Longrightarrow> inj_on cast (set il) \<Longrightarrow> e \<in> set il \<Longrightarrow>
     \<exists>j<length il. il ! j = e \<and> lt_b t' ! cast e = 1 + i + j"
proof (induction il arbitrary: i t)
  case Nil
  then show ?case by simp
next
  case (Cons x il)
  let ?t1 = "t\<lparr>lt_f := (lt_f t)[i := x], lt_b := (lt_b t)[cast x := 1 + i]\<rparr>"
  from Cons.prems have x: "cast x < length (lt_b t)" and run: "LookupTable_loop cast il (i + 1) ?t1 = Some t'"
    by (auto split: if_splits)
  show ?case
  proof (cases "e \<in> set il")
    case True
    from Cons.prems(2) have "inj_on cast (set il)" by (simp add: inj_on_def)
    from Cons.IH [OF run this True] obtain j where "j < length il" "il ! j = e" "lt_b t' ! cast e = 1 + (i + 1) + j"
      by blast
    then have "Suc j < length (x # il) \<and> (x # il) ! Suc j = e \<and> lt_b t' ! cast e = 1 + i + Suc j"
      by simp
    then show ?thesis by blast
  next
    case False
    with Cons.prems(3) have e: "e = x" by simp
    from False Cons.prems(2) e have "cast x \<notin> cast ` set il"
      by (auto simp: inj_on_def)
    from LookupTable_loop_b_other [OF run this] x have "lt_b t' ! cast x = 1 + i"
      by simp
    with e show ?thesis by auto
  qed
qed

lemma LookupTable_loop_succeeds:
  "i + length il \<le> length (lt_f t) \<Longrightarrow> \<forall>e\<in>set il. cast e < length (lt_b t) \<Longrightarrow>
     \<exists>t'. LookupTable_loop cast il i t = Some t'"
  by (induction il arbitrary: i t) auto

lemma LookupTable_loop_in_range:
  "LookupTable_loop cast il i t = Some t' \<Longrightarrow> e \<in> set il \<Longrightarrow> cast e < length (lt_b t)"
proof (induction il arbitrary: i t)
  case Nil
  then show ?case by simp
next
  case (Cons x il)
  let ?t1 = "t\<lparr>lt_f := (lt_f t)[i := x], lt_b := (lt_b t)[cast x := 1 + i]\<rparr>"
  from Cons.prems(1) have x: "cast x < length (lt_b t)"
    and run: "LookupTable_loop cast il (i + 1) ?t1 = Some t'"
    by (auto split: if_splits)
  show ?case
  proof (cases "e = x")
    case True
    with x show ?thesis by simp
  next
    case False
    with Cons.prems(2) have "e \<in> set il" by simp
    from Cons.IH [OF run this] show ?thesis by simp
  qed
qed

subsection \<open>The table of a \<open>ValueMap\<close>\<close>

lemma ValueMap_table_exists:
  assumes "\<forall>e\<in>set E. is_facet vs e"
  shows "\<exists>t. ValueMap_table vs E = Some t"
  unfolding ValueMap_table_def LookupTable_ctor_def
  by (rule LookupTable_loop_succeeds) (use assms in \<open>simp_all add: Facet_int_lt_MAX\<close>)

lemma ValueMap_table_f:
  assumes "ValueMap_table vs E = Some t"
  shows "lt_f t = E"
  using LookupTable_loop_f [OF assms [unfolded ValueMap_table_def LookupTable_ctor_def]]
  by simp

lemma ValueMap_table_b_length:
  assumes "ValueMap_table vs E = Some t"
  shows "length (lt_b t) = Facet_int vs Facet_MAX"
  using LookupTable_loop_lengths [OF assms [unfolded ValueMap_table_def LookupTable_ctor_def]]
  by simp

lemma ValueMap_table_is_facet:
  assumes "ValueMap_table vs E = Some t" and "e \<in> set E"
  shows "is_facet vs e"
  using LookupTable_loop_in_range [OF assms(1) [unfolded ValueMap_table_def LookupTable_ctor_def] assms(2)]
  by (simp add: Facet_int_lt_MAX)

lemma ValueMap_table_b_unsupported:
  assumes "ValueMap_table vs E = Some t" and "is_facet vs v" and "v \<notin> set E"
  shows "lt_b t ! Facet_int vs v = 0"
proof -
  from assms(2,3) have "Facet_int vs v \<notin> Facet_int vs ` set E"
    by (auto dest: Facet_int_inj)
  from LookupTable_loop_b_other [OF assms(1) [unfolded ValueMap_table_def LookupTable_ctor_def] this]
    assms(2)
  show ?thesis by (simp add: Facet_int_lt_MAX)
qed

lemma ValueMap_table_b_supported:
  assumes "ValueMap_table vs E = Some t" and "v \<in> set E"
  shows "\<exists>j<length E. E ! j = v \<and> lt_b t ! Facet_int vs v = 1 + j"
proof -
  have "inj_on (Facet_int vs) (set E)"
    using ValueMap_table_is_facet [OF assms(1)] by (simp add: Facet_int_inj_on)
  from LookupTable_loop_b_elem [OF assms(1) [unfolded ValueMap_table_def LookupTable_ctor_def] this assms(2)]
  show ?thesis by simp
qed

lemma ValueMap_at_unsupported:
  assumes "ValueMap_table vs E = Some t" and "is_facet vs v" and "v \<notin> set E"
  shows "ValueMap_at vs t v = Inl AssertionFailure"
  using ValueMap_table_b_unsupported [OF assms] assms(2)
  by (simp add: ValueMap_at_def ValueMap_table_b_length [OF assms(1)] Facet_int_lt_MAX)

lemma ValueMap_at_supported:
  assumes "ValueMap_table vs E = Some t" and "v \<in> set E"
  shows "\<exists>j<length E. E ! j = v \<and> ValueMap_at vs t v = Inr j"
proof -
  from ValueMap_table_b_supported [OF assms] obtain j
    where j: "j < length E" "E ! j = v" "lt_b t ! Facet_int vs v = 1 + j"
    by blast
  moreover have "Facet_int vs v < length (lt_b t)"
    using ValueMap_table_is_facet [OF assms]
    by (simp add: ValueMap_table_b_length [OF assms(1)] Facet_int_lt_MAX)
  ultimately have "ValueMap_at vs t v = Inr j"
    by (simp add: ValueMap_at_def)
  with j show ?thesis by blast
qed

lemma ValueMap_at_nth:
  assumes "ValueMap_table vs E = Some t" and "distinct E" and "i < length E"
  shows "ValueMap_at vs t (E ! i) = Inr i"
proof -
  from assms(3) have "E ! i \<in> set E" by simp
  from ValueMap_at_supported [OF assms(1) this] obtain j
    where j: "j < length E" "E ! j = E ! i" "ValueMap_at vs t (E ! i) = Inr j"
    by blast
  from assms(2,3) j(1,2) have "j = i"
    by (simp add: nth_eq_iff_index_eq)
  with j(3) show ?thesis by simp
qed

text \<open>
  A facet that the list names twice gets the slot of its last position: for
  \<open>ValueMap<I32, I64, I32>\<close>, \<open>at(I32)\<close> is slot 2.
\<close>

lemma ValueMap_at_repeated_facet:
  "ValueMap_table 128 [I32, I64, I32]
     = Some \<lparr>lt_f = [I32, I64, I32], lt_b = [2, 3] @ replicate 33 0\<rparr>
   \<and> ValueMap_at 128 \<lparr>lt_f = [I32, I64, I32], lt_b = [2, 3] @ replicate 33 0\<rparr> I32 = Inr 2"
  by code_simp

text \<open>\<open>at(MAX)\<close> reads \<open>b[MAX]\<close>, one element past the end of \<open>b\<close>.\<close>

lemma ValueMap_at_MAX:
  assumes "ValueMap_table vs E = Some t"
  shows "ValueMap_at vs t Facet_MAX = Inl OutOfBounds"
  by (simp add: ValueMap_at_def ValueMap_table_b_length [OF assms])

lemma ValueMapGp_E_facets: "\<forall>e\<in>set ValueMapGp_E. is_facet vs e"
  by (simp add: ValueMapGp_E_def Facet_defs)

lemma ValueMapSse_E_facets: "\<forall>e\<in>set (ValueMapSse_E vs). is_facet vs e"
  by (simp add: ValueMapSse_E_def Facet_defs)

lemma pseudo_is_facet: "P \<in> set pseudo_facets \<Longrightarrow> is_facet vs P"
  by (simp add: is_facet_def)

lemma pseudo_not_Gp: "P \<in> set pseudo_facets \<Longrightarrow> P \<notin> set ValueMapGp_E"
  by (auto simp: ValueMapGp_E_def pseudo_facets_def)

lemma pseudo_not_Sse: "P \<in> set pseudo_facets \<Longrightarrow> P \<notin> set (ValueMapSse_E vs)"
  by (auto simp: ValueMapSse_E_def pseudo_facets_def)

text \<open>
  Claim C2. For every \<open>ValueMap\<close> over facets \<open>E\<close> the table is built, and then for
  every facet \<open>v\<close>: if \<open>v\<close> is not one of \<open>E\<close>, \<open>at(v)\<close> stops at the assertion; if
  it is, \<open>at(v)\<close> returns a slot of the \<open>values\<close> array, which has \<open>sizeof...(E)\<close>
  elements.
\<close>

theorem ValueMap_at_contract:
  assumes "\<forall>e\<in>set E. is_facet vs e"
  shows "\<exists>t. ValueMap_table vs E = Some t
    \<and> (\<forall>v. is_facet vs v \<longrightarrow>
          (v \<notin> set E \<longrightarrow> ValueMap_at vs t v = Inl AssertionFailure)
        \<and> (v \<in> set E \<longrightarrow> (\<exists>i<length E. ValueMap_at vs t v = Inr i)))"
proof -
  from ValueMap_table_exists [OF assms] obtain t where t: "ValueMap_table vs E = Some t" ..
  have "ValueMap_at vs t v = Inl AssertionFailure" if "is_facet vs v" "v \<notin> set E" for v
    using ValueMap_at_unsupported [OF t that] .
  moreover have "\<exists>i<length E. ValueMap_at vs t v = Inr i" if "v \<in> set E" for v
    using ValueMap_at_supported [OF t that] by blast
  ultimately show ?thesis using t by blast
qed

theorem ValueMap_at_contract_witness:
  "is_facet 128 I32 \<and> is_facet 128 I64 \<and> is_facet 128 I8
   \<and> (\<exists>t. ValueMap_table 128 [I32, I64] = Some t
        \<and> ValueMap_at 128 t I8 = Inl AssertionFailure
        \<and> (\<exists>i. ValueMap_at 128 t I64 = Inr i))"
proof -
  have E: "\<forall>e\<in>set [I32, I64]. is_facet 128 e" and v: "is_facet 128 I8" "is_facet 128 I64"
    by (simp_all add: Facet_defs)
  from ValueMap_at_contract [OF E] obtain t where t: "ValueMap_table 128 [I32, I64] = Some t"
    and c: "\<forall>v. is_facet 128 v \<longrightarrow>
          (v \<notin> set [I32, I64] \<longrightarrow> ValueMap_at 128 t v = Inl AssertionFailure)
        \<and> (v \<in> set [I32, I64] \<longrightarrow> (\<exists>i<length [I32, I64]. ValueMap_at 128 t v = Inr i))"
    by blast
  from c [rule_format, OF v(1)] have "ValueMap_at 128 t I8 = Inl AssertionFailure" by simp
  moreover from c [rule_format, OF v(2)] have "\<exists>i. ValueMap_at 128 t I64 = Inr i" by auto
  ultimately show ?thesis using E v t by auto
qed

text \<open>
  Claim C4. For every \<open>ValueMap\<close> over the facets \<open>E\<close> the table is built, and:
  \<open>facets()\<close> is \<open>E\<close> in its order; the backward table is 0 exactly at the facets
  that are not in \<open>E\<close>; the round trip \<open>f[b[E\<^sub>i] - 1] = E\<^sub>i\<close> holds and stays inside
  \<open>f\<close>; two different facets of \<open>E\<close> get different slots; and when no facet is listed
  twice, \<open>at(E\<^sub>i)\<close> is slot \<open>i\<close>.
\<close>

theorem ValueMap_table_dense_index:
  assumes "\<forall>e\<in>set E. is_facet vs e"
  shows "\<exists>t. ValueMap_table vs E = Some t
    \<and> ValueMap_facets t = E
    \<and> (\<forall>v. is_facet vs v \<longrightarrow> (lt_b t ! Facet_int vs v = 0) = (v \<notin> set E))
    \<and> (\<forall>i<length E. lt_b t ! Facet_int vs (E ! i) - 1 < length E
          \<and> lt_f t ! (lt_b t ! Facet_int vs (E ! i) - 1) = E ! i)
    \<and> (\<forall>v\<in>set E. \<forall>w\<in>set E. v \<noteq> w \<longrightarrow> ValueMap_at vs t v \<noteq> ValueMap_at vs t w)
    \<and> (distinct E \<longrightarrow> (\<forall>i<length E. ValueMap_at vs t (E ! i) = Inr i))"
proof -
  from ValueMap_table_exists [OF assms] obtain t where t: "ValueMap_table vs E = Some t" ..
  note f = ValueMap_table_f [OF t]
  have zero: "(lt_b t ! Facet_int vs v = 0) = (v \<notin> set E)" if "is_facet vs v" for v
  proof (cases "v \<in> set E")
    case True
    from ValueMap_table_b_supported [OF t True] show ?thesis using True by auto
  next
    case False
    from ValueMap_table_b_unsupported [OF t that False] show ?thesis using False by simp
  qed
  have round: "lt_b t ! Facet_int vs (E ! i) - 1 < length E
      \<and> lt_f t ! (lt_b t ! Facet_int vs (E ! i) - 1) = E ! i" if "i < length E" for i
  proof -
    from that have "E ! i \<in> set E" by simp
    from ValueMap_table_b_supported [OF t this] show ?thesis by (auto simp: f)
  qed
  have apart: "ValueMap_at vs t v \<noteq> ValueMap_at vs t w"
    if "v \<in> set E" "w \<in> set E" "v \<noteq> w" for v w
  proof -
    from ValueMap_at_supported [OF t that(1)] obtain j
      where j: "E ! j = v" "ValueMap_at vs t v = Inr j" by blast
    from ValueMap_at_supported [OF t that(2)] obtain k
      where k: "E ! k = w" "ValueMap_at vs t w = Inr k" by blast
    from j(1) k(1) that(3) have "j \<noteq> k" by blast
    with j(2) k(2) show ?thesis by simp
  qed
  have pos: "ValueMap_at vs t (E ! i) = Inr i" if "distinct E" "i < length E" for i
    using ValueMap_at_nth [OF t that] .
  show ?thesis
  proof (intro exI conjI)
    show "ValueMap_table vs E = Some t" by (rule t)
    show "ValueMap_facets t = E" by (simp add: ValueMap_facets_def f)
    show "\<forall>v. is_facet vs v \<longrightarrow> (lt_b t ! Facet_int vs v = 0) = (v \<notin> set E)"
      using zero by blast
    show "\<forall>i<length E. lt_b t ! Facet_int vs (E ! i) - 1 < length E
          \<and> lt_f t ! (lt_b t ! Facet_int vs (E ! i) - 1) = E ! i"
      using round by blast
    show "\<forall>v\<in>set E. \<forall>w\<in>set E. v \<noteq> w \<longrightarrow> ValueMap_at vs t v \<noteq> ValueMap_at vs t w"
      using apart by blast
    show "distinct E \<longrightarrow> (\<forall>i<length E. ValueMap_at vs t (E ! i) = Inr i)"
      using pos by blast
  qed
qed

theorem ValueMap_table_dense_index_witness:
  "is_facet 128 I32 \<and> is_facet 128 I64 \<and> distinct [I32, I64] \<and> is_facet 128 VI8
   \<and> (\<exists>t. ValueMap_table 128 [I32, I64] = Some t
        \<and> ValueMap_facets t = [I32, I64]
        \<and> lt_b t ! Facet_int 128 VI8 = 0
        \<and> lt_b t ! Facet_int 128 I64 \<noteq> 0
        \<and> lt_f t ! (lt_b t ! Facet_int 128 I64 - 1) = I64
        \<and> ValueMap_at 128 t I32 \<noteq> ValueMap_at 128 t I64
        \<and> ValueMap_at 128 t I32 = Inr 0
        \<and> ValueMap_at 128 t I64 = Inr 1)"
proof -
  have E: "\<forall>e\<in>set [I32, I64]. is_facet 128 e" and d: "distinct [I32, I64]"
    and v: "is_facet 128 VI8" "is_facet 128 I64"
    by (simp_all add: Facet_defs)
  from ValueMap_table_dense_index [OF E] obtain t where t: "ValueMap_table 128 [I32, I64] = Some t"
    and f: "ValueMap_facets t = [I32, I64]"
    and z: "\<forall>v. is_facet 128 v \<longrightarrow> (lt_b t ! Facet_int 128 v = 0) = (v \<notin> set [I32, I64])"
    and r: "\<forall>i<length [I32, I64]. lt_b t ! Facet_int 128 ([I32, I64] ! i) - 1 < length [I32, I64]
          \<and> lt_f t ! (lt_b t ! Facet_int 128 ([I32, I64] ! i) - 1) = [I32, I64] ! i"
    and a: "\<forall>v\<in>set [I32, I64]. \<forall>w\<in>set [I32, I64]. v \<noteq> w \<longrightarrow> ValueMap_at 128 t v \<noteq> ValueMap_at 128 t w"
    and p: "distinct [I32, I64] \<longrightarrow> (\<forall>i<length [I32, I64]. ValueMap_at 128 t ([I32, I64] ! i) = Inr i)"
    by (elim exE conjE) (rule that, assumption+)
  from z v have "lt_b t ! Facet_int 128 VI8 = 0" "lt_b t ! Facet_int 128 I64 \<noteq> 0" by simp_all
  moreover from r [rule_format, of 1] have "lt_f t ! (lt_b t ! Facet_int 128 I64 - 1) = I64" by simp
  moreover from a have "ValueMap_at 128 t I32 \<noteq> ValueMap_at 128 t I64" by simp
  moreover from p d have q: "\<forall>i<length [I32, I64]. ValueMap_at 128 t ([I32, I64] ! i) = Inr i" ..
  from q [rule_format, of 0] q [rule_format, of 1]
  have "ValueMap_at 128 t I32 = Inr 0" "ValueMap_at 128 t I64 = Inr 1"
    by simp_all
  ultimately show ?thesis using E d v(1) t f by auto
qed

text \<open>
  Claim C6. For each pseudo-facet \<open>P\<close> and both register classes, whatever the vector
  register size: the table is built, \<open>P\<close> is not one of \<open>facets()\<close>, so no slot of the
  map belongs to \<open>P\<close>; \<open>at(P)\<close> stops at the assertion, and so does every write through
  \<open>at(P)\<close>, so no slot is ever populated under the key \<open>P\<close>.
\<close>

theorem pseudo_facets_never_slots:
  "\<forall>P\<in>set pseudo_facets.
     (\<exists>g. ValueMapGp_table vs = Some g \<and> P \<notin> set (ValueMap_facets g)
         \<and> ValueMap_at vs g P = Inl AssertionFailure
         \<and> (\<forall>(m :: 'v ValueMap) x. ValueMap_put vs g m P x = Inl AssertionFailure))
   \<and> (\<exists>s. ValueMapSse_table vs = Some s \<and> P \<notin> set (ValueMap_facets s)
         \<and> ValueMap_at vs s P = Inl AssertionFailure
         \<and> (\<forall>(m :: 'v ValueMap) x. ValueMap_put vs s m P x = Inl AssertionFailure))"
proof
  fix P assume P: "P \<in> set pseudo_facets"
  from ValueMap_table_exists [OF ValueMapGp_E_facets] obtain g
    where g: "ValueMap_table vs ValueMapGp_E = Some g" ..
  from ValueMap_table_exists [OF ValueMapSse_E_facets] obtain s
    where s: "ValueMap_table vs (ValueMapSse_E vs) = Some s" ..
  have fg: "P \<notin> set (ValueMap_facets g)" and fs: "P \<notin> set (ValueMap_facets s)"
    using P by (simp_all add: ValueMap_facets_def ValueMap_table_f [OF g] ValueMap_table_f [OF s]
        pseudo_not_Gp pseudo_not_Sse)
  have ag: "ValueMap_at vs g P = Inl AssertionFailure"
    by (rule ValueMap_at_unsupported [OF g pseudo_is_facet [OF P] pseudo_not_Gp [OF P]])
  have as: "ValueMap_at vs s P = Inl AssertionFailure"
    by (rule ValueMap_at_unsupported [OF s pseudo_is_facet [OF P] pseudo_not_Sse [OF P]])
  have pg: "\<forall>(m :: 'v ValueMap) x. ValueMap_put vs g m P x = Inl AssertionFailure"
    by (simp add: ValueMap_put_def ag)
  have ps: "\<forall>(m :: 'v ValueMap) x. ValueMap_put vs s m P x = Inl AssertionFailure"
    by (simp add: ValueMap_put_def as)
  have "\<exists>g. ValueMapGp_table vs = Some g \<and> P \<notin> set (ValueMap_facets g)
         \<and> ValueMap_at vs g P = Inl AssertionFailure
         \<and> (\<forall>(m :: 'v ValueMap) x. ValueMap_put vs g m P x = Inl AssertionFailure)"
    unfolding ValueMapGp_table_def using g fg ag pg by (intro exI conjI)
  moreover have "\<exists>s. ValueMapSse_table vs = Some s \<and> P \<notin> set (ValueMap_facets s)
         \<and> ValueMap_at vs s P = Inl AssertionFailure
         \<and> (\<forall>(m :: 'v ValueMap) x. ValueMap_put vs s m P x = Inl AssertionFailure)"
    unfolding ValueMapSse_table_def using s fs as ps by (intro exI conjI)
  ultimately show "(\<exists>g. ValueMapGp_table vs = Some g \<and> P \<notin> set (ValueMap_facets g)
         \<and> ValueMap_at vs g P = Inl AssertionFailure
         \<and> (\<forall>(m :: 'v ValueMap) x. ValueMap_put vs g m P x = Inl AssertionFailure))
   \<and> (\<exists>s. ValueMapSse_table vs = Some s \<and> P \<notin> set (ValueMap_facets s)
         \<and> ValueMap_at vs s P = Inl AssertionFailure
         \<and> (\<forall>(m :: 'v ValueMap) x. ValueMap_put vs s m P x = Inl AssertionFailure))" ..
qed

theorem pseudo_facets_never_slots_witness:
  "VF32 \<in> set pseudo_facets
   \<and> (\<exists>g. ValueMapGp_table 128 = Some g \<and> VF32 \<notin> set (ValueMap_facets g)
         \<and> ValueMap_at 128 g VF32 = Inl AssertionFailure
         \<and> ValueMap_put 128 g \<lparr>vm_values = replicate 6 None\<rparr> VF32 (Some (1::nat))
             = Inl AssertionFailure)
   \<and> (\<exists>s. ValueMapSse_table 128 = Some s \<and> VF32 \<notin> set (ValueMap_facets s)
         \<and> ValueMap_at 128 s VF32 = Inl AssertionFailure
         \<and> ValueMap_put 128 s \<lparr>vm_values = replicate 26 None\<rparr> VF32 (Some (1::nat))
             = Inl AssertionFailure)"
proof -
  have P: "VF32 \<in> set pseudo_facets" by (simp add: pseudo_facets_def)
  from pseudo_facets_never_slots [where ?'v = nat, of 128, rule_format, OF P] P
  show ?thesis by blast
qed

text \<open>
  Claim C7. The table of \<open>ValueMapGp\<close> is built; its facets are \<open>I64\<close>, \<open>I32\<close>, \<open>I16\<close>,
  \<open>I8\<close>, \<open>I8H\<close> and \<open>PTR\<close>, each once; and the facets for which \<open>at\<close> returns a slot
  are exactly these six.
\<close>

theorem ValueMapGp_six_facets:
  "\<exists>g. ValueMapGp_table vs = Some g
     \<and> ValueMap_facets g = [I64, I32, I16, I8, I8H, PTR]
     \<and> distinct (ValueMap_facets g)
     \<and> {v. is_facet vs v \<and> (\<exists>i. ValueMap_at vs g v = Inr i)} = {I64, I32, I16, I8, I8H, PTR}"
proof -
  from ValueMap_table_exists [OF ValueMapGp_E_facets] obtain g
    where g: "ValueMap_table vs ValueMapGp_E = Some g" ..
  have f: "ValueMap_facets g = [I64, I32, I16, I8, I8H, PTR]"
    by (simp add: ValueMap_facets_def ValueMap_table_f [OF g] ValueMapGp_E_def)
  have "(is_facet vs v \<and> (\<exists>i. ValueMap_at vs g v = Inr i)) = (v \<in> set ValueMapGp_E)" for v
  proof (cases "v \<in> set ValueMapGp_E")
    case True
    from ValueMap_at_supported [OF g True] ValueMap_table_is_facet [OF g True]
    show ?thesis using True by auto
  next
    case False
    show ?thesis
      using ValueMap_at_unsupported [OF g _ False] False by auto
  qed
  then have "{v. is_facet vs v \<and> (\<exists>i. ValueMap_at vs g v = Inr i)} = set ValueMapGp_E"
    by blast
  with g f show ?thesis
    by (simp add: ValueMapGp_table_def ValueMapGp_E_def)
qed

subsection \<open>FlagCache\<close>

lemma FlagCache_call_keeps_valid:
  "\<not> clears_valid x \<Longrightarrow> valid c \<Longrightarrow> valid (FlagCache_call c x)"
  by (cases x) (simp_all add: FlagCache_update_def)

lemma FlagCache_calls_keep_valid:
  "list_all (\<lambda>x. \<not> clears_valid x) xs \<Longrightarrow> valid c \<Longrightarrow> valid (FlagCache_calls c xs)"
  by (induction xs arbitrary: c) (simp_all add: FlagCache_call_keeps_valid)

lemma FlagCache_call_clears:
  "clears_valid x \<Longrightarrow> \<not> valid (FlagCache_call c x)"
  by (cases x) simp_all

text \<open>
  Claim C3. A freshly constructed \<open>FlagCache\<close> has \<open>valid = false\<close>, whatever the
  storage held before. \<open>update(a, b)\<close> on any cache gives \<open>valid = true\<close>, \<open>lhs = a\<close>
  and \<open>rhs = b\<close>. A second \<open>update(c, d)\<close> gives exactly the cache with \<open>valid = true\<close>,
  \<open>lhs = c\<close> and \<open>rhs = d\<close>: nothing of \<open>a\<close> and \<open>b\<close> is left, and the result is the
  same as that of a single \<open>update(c, d)\<close>.
\<close>

theorem FlagCache_fresh_update_overwrite:
  fixes storage k :: "'v FlagCache"
  shows "valid (FlagCache_ctor storage) = False
    \<and> valid (FlagCache_update k a b) = True
    \<and> lhs (FlagCache_update k a b) = a
    \<and> rhs (FlagCache_update k a b) = b
    \<and> FlagCache_update (FlagCache_update k a b) c d = \<lparr>valid = True, lhs = c, rhs = d\<rparr>
    \<and> FlagCache_update (FlagCache_update k a b) c d = FlagCache_update k c d"
  by (simp add: FlagCache_ctor_def FlagCache_update_def)

text \<open>
  Claim C10, as stated, fails: validity is not monotone over the lifetime of the object.
  After the constructor and an \<open>update\<close> the cache is valid, and a write of \<open>false\<close> to
  the public field \<open>valid\<close>, or the assignment of a freshly constructed cache, makes it
  invalid again.
\<close>

theorem FlagCache_valid_reset:
  "valid (FlagCache_calls (FlagCache_ctor \<lparr>valid = True, lhs = None, rhs = None\<rparr>)
      [Update (Some (1::nat)) (Some 2)])
   \<and> \<not> valid (FlagCache_calls (FlagCache_ctor \<lparr>valid = True, lhs = None, rhs = None\<rparr>)
      [Update (Some (1::nat)) (Some 2), Write_valid False])
   \<and> \<not> valid (FlagCache_calls (FlagCache_ctor \<lparr>valid = True, lhs = None, rhs = None\<rparr>)
      [Update (Some (1::nat)) (Some 2),
       Assign (FlagCache_ctor \<lparr>valid = True, lhs = None, rhs = None\<rparr>)])"
  by (simp add: FlagCache_ctor_def FlagCache_update_def)

text \<open>
  Claim C10, amended. \<open>update\<close>, the one member function that the struct declares, never
  stores \<open>false\<close> in \<open>valid\<close>, and neither does a write to \<open>lhs\<close> or \<open>rhs\<close>. Over any
  operations none of which is a write of \<open>false\<close> to \<open>valid\<close> or the assignment of an
  invalid cache, a valid cache stays valid, and a cache is valid after every operation
  that follows the first \<open>update\<close> of its lifetime. Each of the two excepted operations
  leaves the cache invalid.
\<close>

theorem FlagCache_valid_kept_unless_cleared:
  fixes k storage :: "'v FlagCache"
  shows "(list_all (\<lambda>x. \<not> clears_valid x) xs \<longrightarrow> valid k \<longrightarrow> valid (FlagCache_calls k xs))
    \<and> (list_all (\<lambda>x. \<not> clears_valid x) xs \<longrightarrow>
          valid (FlagCache_calls (FlagCache_ctor storage) (Update a b # xs)))
    \<and> (clears_valid x \<longrightarrow> \<not> valid (FlagCache_call k x))
    \<and> \<not> clears_valid (Update a b :: 'v FlagCache_op)
    \<and> \<not> clears_valid (Write_lhs a :: 'v FlagCache_op)
    \<and> \<not> clears_valid (Write_rhs a :: 'v FlagCache_op)"
proof (intro conjI impI)
  assume "list_all (\<lambda>x. \<not> clears_valid x) xs" and "valid k"
  then show "valid (FlagCache_calls k xs)"
    by (rule FlagCache_calls_keep_valid)
next
  assume xs: "list_all (\<lambda>x. \<not> clears_valid x) xs"
  have "valid (FlagCache_call (FlagCache_ctor storage) (Update a b))"
    by (simp add: FlagCache_update_def)
  with xs have "valid (FlagCache_calls (FlagCache_call (FlagCache_ctor storage) (Update a b)) xs)"
    by (rule FlagCache_calls_keep_valid)
  then show "valid (FlagCache_calls (FlagCache_ctor storage) (Update a b # xs))"
    by simp
next
  assume "clears_valid x"
  then show "\<not> valid (FlagCache_call k x)"
    by (rule FlagCache_call_clears)
qed simp_all

theorem FlagCache_valid_kept_unless_cleared_witness:
  "list_all (\<lambda>x. \<not> clears_valid x)
     [Update (Some (2::nat)) (Some 3), Write_lhs None, Write_valid True,
      Assign \<lparr>valid = True, lhs = None, rhs = Some 4\<rparr>]
   \<and> valid \<lparr>valid = True, lhs = Some (1::nat), rhs = None\<rparr>
   \<and> valid (FlagCache_calls \<lparr>valid = True, lhs = Some (1::nat), rhs = None\<rparr>
        [Update (Some 2) (Some 3), Write_lhs None, Write_valid True,
         Assign \<lparr>valid = True, lhs = None, rhs = Some 4\<rparr>])
   \<and> valid (FlagCache_calls (FlagCache_ctor \<lparr>valid = True, lhs = Some (1::nat), rhs = None\<rparr>)
        [Update (Some 5) None, Update (Some 2) (Some 3), Write_lhs None, Write_valid True,
         Assign \<lparr>valid = True, lhs = None, rhs = Some 4\<rparr>])
   \<and> clears_valid (Assign \<lparr>valid = False, lhs = Some (1::nat), rhs = None\<rparr>)
   \<and> \<not> valid (FlagCache_call \<lparr>valid = True, lhs = Some (1::nat), rhs = None\<rparr>
        (Assign \<lparr>valid = False, lhs = Some (1::nat), rhs = None\<rparr>))"
proof -
  let ?k = "\<lparr>valid = True, lhs = Some (1::nat), rhs = None\<rparr>"
  let ?xs = "[Update (Some (2::nat)) (Some 3), Write_lhs None, Write_valid True,
      Assign \<lparr>valid = True, lhs = None, rhs = Some 4\<rparr>]"
  let ?x = "Assign \<lparr>valid = False, lhs = Some (1::nat), rhs = None\<rparr>"
  have xs: "list_all (\<lambda>x. \<not> clears_valid x) ?xs" and k: "valid ?k" and x: "clears_valid ?x"
    by simp_all
  note inst = FlagCache_valid_kept_unless_cleared [of ?xs ?k ?k "Some 5" None ?x]
  from inst xs k have "valid (FlagCache_calls ?k ?xs)" by blast
  moreover from inst xs have "valid (FlagCache_calls (FlagCache_ctor ?k) (Update (Some 5) None # ?xs))"
    by blast
  moreover from inst x have "\<not> valid (FlagCache_call ?k ?x)" by blast
  ultimately show ?thesis using xs k x by blast
qed

subsection \<open>The constructor and the members of \<open>RegFile\<close>\<close>

text \<open>
  Claim C9. The constructor sets the block pointer and makes the flag cache invalid. Every
  register map, the instruction pointer slot and every flag slot are what the storage
  held, and so are the operands of the flag cache; the register file is in the state with
  every slot empty only if the storage was.
\<close>

theorem RegFile_ctor_leaves_slots:
  fixes storage :: "('b, 'v) RegFile"
  shows "llvm_block (RegFile_ctor storage blk) = blk
    \<and> valid (GetFlagCache (RegFile_ctor storage blk)) = False
    \<and> lhs (GetFlagCache (RegFile_ctor storage blk)) = lhs (flag_cache storage)
    \<and> rhs (GetFlagCache (RegFile_ctor storage blk)) = rhs (flag_cache storage)
    \<and> regs_gp (RegFile_ctor storage blk) = regs_gp storage
    \<and> regs_sse (RegFile_ctor storage blk) = regs_sse storage
    \<and> reg_ip (RegFile_ctor storage blk) = reg_ip storage
    \<and> flags (RegFile_ctor storage blk) = flags storage
    \<and> RegFile_all_empty (RegFile_ctor storage blk) = RegFile_all_empty storage"
  by (simp add: RegFile_ctor_def FlagCache_ctor_def GetFlagCache_def RegFile_all_empty_def)

theorem RegFile_ctor_leaves_slots_witness:
  "\<not> RegFile_all_empty (RegFile_ctor ex_regfile None)
   \<and> reg_ip (RegFile_ctor ex_regfile None) = Some 1
   \<and> regs_gp (RegFile_ctor ex_regfile None) = regs_gp ex_regfile"
  using RegFile_ctor_leaves_slots [of ex_regfile None]
  by (simp add: RegFile_all_empty_def ex_regfile_def)

text \<open>
  Claim C8, as stated, fails: the class has no public member functions
  \<open>GetInstructionPointer\<close> and \<open>SetInstructionPointer\<close>.
\<close>

theorem RegFile_no_instruction_pointer_accessor:
  "\<not> ((''GetInstructionPointer'', Public, MemberFunction) \<in> set RegFile_members
      \<and> (''SetInstructionPointer'', Public, MemberFunction) \<in> set RegFile_members)"
  by (simp add: RegFile_members_def)

text \<open>
  Claim C8, amended. The public member functions of the class are \<open>GetReg\<close>, \<open>SetReg\<close>,
  \<open>Rename\<close>, \<open>GetFlag\<close>, \<open>SetFlag\<close> and \<open>GetFlagCache\<close>. No member is called
  \<open>GetInstructionPointer\<close> or \<open>SetInstructionPointer\<close>. The instruction pointer slot
  \<open>reg_ip\<close> is a private data member.
\<close>

theorem RegFile_public_functions:
  "public_functions RegFile_members
     = [''GetReg'', ''SetReg'', ''Rename'', ''GetFlag'', ''SetFlag'', ''GetFlagCache'']
   \<and> ''GetInstructionPointer'' \<notin> fst ` set RegFile_members
   \<and> ''SetInstructionPointer'' \<notin> fst ` set RegFile_members
   \<and> (''reg_ip'', Private, DataMember) \<in> set RegFile_members"
  by (simp add: public_functions_def RegFile_members_def)

subsection \<open>\<open>GetReg\<close>, \<open>SetReg\<close> and \<open>Rename\<close>\<close>

lemma RegClass_table_eq: "RegClass_table vs c = ValueMap_table vs (RegClass_facets vs c)"
  by (cases c) (simp_all add: RegClass_table_def RegClass_facets_def ValueMapGp_table_def ValueMapSse_table_def)

lemma RegFile_entry_wf:
  "RegFile_wf vs s \<Longrightarrow> RegFile_entry s reg = Inr m \<Longrightarrow> ValueMap_wf (RegClass_facets vs (reg_class reg)) m"
  by (cases "reg_class reg")
     (auto simp: RegFile_wf_def RegFile_entry_def RegClass_regs_def RegClass_facets_def list_all_length
           split: if_splits)

lemma RegFile_entry_set_entry:
  "RegFile_entry s reg = Inr m \<Longrightarrow> RegFile_entry (RegFile_set_entry s reg m') reg = Inr m'"
  by (cases "reg_class reg")
     (auto simp: RegFile_entry_def RegFile_set_entry_def RegClass_regs_def split: if_splits)

lemma RegFile_entry_set_entry_other:
  "reg' \<noteq> reg \<Longrightarrow> RegFile_entry (RegFile_set_entry s reg m') reg' = RegFile_entry s reg'"
proof -
  assume ne: "reg' \<noteq> reg"
  have "reg_class reg' \<noteq> reg_class reg \<or> reg_index reg' \<noteq> reg_index reg"
    using ne by (cases reg, cases reg') auto
  then show ?thesis
    by (cases "reg_class reg"; cases "reg_class reg'")
       (auto simp: RegFile_entry_def RegFile_set_entry_def RegClass_regs_def)
qed

lemma GetReg_result_cong:
  assumes "reg_class r1 = reg_class r2" and "RegFile_entry s1 r1 = RegFile_entry s2 r2"
  shows "GetReg_result convert rank vs s1 r1 F = GetReg_result convert rank vs s2 r2 F"
  using assms
  by (simp add: GetReg_result_def GetReg_def split: option.splits sum.splits prod.splits)

lemma first_populated_only:
  assumes "F \<in> set gs" and "ValueMap_get vs t m F = Inr (Some V)"
    and "\<forall>g\<in>set gs. g \<noteq> F \<longrightarrow> ValueMap_get vs t m g = Inr None"
  shows "first_populated vs t m gs = Some (F, V)"
  using assms
proof (induction gs)
  case Nil
  then show ?case by simp
next
  case (Cons g gs)
  show ?case
  proof (cases "g = F")
    case True
    with Cons.prems(2) show ?thesis by simp
  next
    case False
    with Cons.prems have "F \<in> set gs" and "ValueMap_get vs t m g = Inr None"
      and "\<forall>g\<in>set gs. g \<noteq> F \<longrightarrow> ValueMap_get vs t m g = Inr None"
      by simp_all
    with Cons.IH Cons.prems(2) show ?thesis by simp
  qed
qed

lemma set_scan_order: "set (scan_order rank t G) = set (ValueMap_facets t)"
  by (simp add: scan_order_def)

lemma RegClass_facets_is_facet: "\<forall>e\<in>set (RegClass_facets vs c). is_facet vs e"
  by (cases c) (simp_all add: RegClass_facets_def ValueMapGp_E_def ValueMapSse_E_def
      is_facet_def storage_facets_def)

lemma ValueMap_at_Inr:
  assumes "ValueMap_table vs E = Some t" and "ValueMap_at vs t v = Inr i"
  shows "v \<in> set E \<and> i < length E \<and> E ! i = v"
proof -
  from assms(2) have "Facet_int vs v < length (lt_b t)"
    by (simp add: ValueMap_at_def split: if_splits)
  then have facet: "is_facet vs v"
    by (simp add: ValueMap_table_b_length [OF assms(1)] Facet_int_lt_MAX)
  have mem: "v \<in> set E"
  proof (rule ccontr)
    assume "v \<notin> set E"
    from ValueMap_at_unsupported [OF assms(1) facet this] assms(2) show False by simp
  qed
  from ValueMap_at_supported [OF assms(1) mem] assms(2) mem show ?thesis by auto
qed

lemma ValueMap_at_neq:
  assumes "ValueMap_table vs E = Some t"
    and "ValueMap_at vs t v = Inr i" and "ValueMap_at vs t w = Inr j" and "v \<noteq> w"
  shows "i \<noteq> j"
  using ValueMap_at_Inr [OF assms(1,2)] ValueMap_at_Inr [OF assms(1,3)] assms(4) by auto

lemma SetReg_clear_GetReg_step:
  assumes wf: "RegFile_wf vs s"
    and set: "SetReg vs s reg F (Some V) True = Inr s'"
  shows "GetReg convert rank vs s' reg F = Inr (V, s')
    \<and> (\<forall>G\<in>set (RegClass_facets vs (reg_class reg)). G \<noteq> F \<longrightarrow>
          RegFile_slot vs s' reg G = Inr None
        \<and> GetReg_result convert rank vs s' reg G
            = (case convert F G V of None \<Rightarrow> Inl ConversionFailed | Some r \<Rightarrow> Inr r))"
proof -
  let ?E = "RegClass_facets vs (reg_class reg)"
  from set obtain t m m' where t: "RegClass_table vs (reg_class reg) = Some t"
    and m: "RegFile_entry s reg = Inr m"
    and put: "ValueMap_put vs t (ValueMap_clear m) F (Some V) = Inr m'"
    and s': "s' = RegFile_set_entry s reg m'"
    by (auto simp: SetReg_def split: option.splits sum.splits)
  from t have tab: "ValueMap_table vs ?E = Some t" by (simp add: RegClass_table_eq)
  from RegFile_entry_wf [OF wf m] have len: "length (vm_values m) = length ?E"
    by (simp add: ValueMap_wf_def)
  from put obtain i where i: "ValueMap_at vs t F = Inr i"
    and m': "m' = \<lparr>vm_values = (replicate (length ?E) None)[i := Some V]\<rparr>"
    by (auto simp: ValueMap_put_def ValueMap_clear_def len split: sum.splits if_splits)
  from ValueMap_at_Inr [OF tab i] have F: "F \<in> set ?E" and i_lt: "i < length ?E"
    by simp_all
  have entry': "RegFile_entry s' reg = Inr m'"
    unfolding s' by (rule RegFile_entry_set_entry [OF m])
  have getF: "ValueMap_get vs t m' F = Inr (Some V)"
    using i i_lt by (simp add: ValueMap_get_def m')
  have getG: "ValueMap_get vs t m' G = Inr None" if "G \<in> set ?E" "G \<noteq> F" for G
  proof -
    from ValueMap_at_supported [OF tab that(1)] obtain j
      where j: "j < length ?E" "ValueMap_at vs t G = Inr j" by blast
    from ValueMap_at_neq [OF tab j(2) i that(2)] have "j \<noteq> i" .
    with j show ?thesis by (simp add: ValueMap_get_def m')
  qed
  have first: "GetReg convert rank vs s' reg F = Inr (V, s')"
    by (simp add: GetReg_def t entry' getF)
  have other: "RegFile_slot vs s' reg G = Inr None
        \<and> GetReg_result convert rank vs s' reg G
            = (case convert F G V of None \<Rightarrow> Inl ConversionFailed | Some r \<Rightarrow> Inr r)"
    if G: "G \<in> set ?E" "G \<noteq> F" for G
  proof
    show "RegFile_slot vs s' reg G = Inr None"
      by (simp add: RegFile_slot_def t entry' getG [OF G])
    have inF: "F \<in> set (scan_order rank t G)"
      using F by (simp add: set_scan_order ValueMap_facets_def ValueMap_table_f [OF tab])
    have rest: "\<forall>g\<in>set (scan_order rank t G). g \<noteq> F \<longrightarrow> ValueMap_get vs t m' g = Inr None"
      using getG by (simp add: set_scan_order ValueMap_facets_def ValueMap_table_f [OF tab])
    have scan: "first_populated vs t m' (scan_order rank t G) = Some (F, V)"
      by (rule first_populated_only [OF inF getF rest])
    from ValueMap_at_supported [OF tab G(1)] obtain j
      where j: "j < length ?E" "ValueMap_at vs t G = Inr j" by blast
    then have put: "\<exists>m''. ValueMap_put vs t m' G x = Inr m''" for x
      by (simp add: ValueMap_put_def m')
    show "GetReg_result convert rank vs s' reg G
            = (case convert F G V of None \<Rightarrow> Inl ConversionFailed | Some r \<Rightarrow> Inr r)"
    proof (cases "convert F G V")
      case None
      then show ?thesis
        by (simp add: GetReg_result_def GetReg_def t entry' getG [OF G] scan)
    next
      case (Some r)
      from put obtain m'' where "ValueMap_put vs t m' G (Some r) = Inr m''" by blast
      with Some show ?thesis
        by (simp add: GetReg_result_def GetReg_def t entry' getG [OF G] scan)
    qed
  qed
  from first other show ?thesis by blast
qed

lemma Rename_copy_step:
  assumes ren: "Rename s reg_dst reg_src = Inr s'"
  shows "(\<forall>F. GetReg_result convert rank vs s' reg_dst F = GetReg_result convert rank vs s reg_src F)
    \<and> RegFile_entry s' reg_src = RegFile_entry s reg_src
    \<and> (reg_dst \<noteq> reg_src \<longrightarrow>
         (\<forall>F V2 s''. SetReg vs s' reg_dst F V2 True = Inr s'' \<longrightarrow>
            RegFile_entry s'' reg_src = RegFile_entry s' reg_src
          \<and> (\<forall>G. GetReg_result convert rank vs s'' reg_src G
                  = GetReg_result convert rank vs s' reg_src G)))"
proof -
  from ren obtain m d where cls: "reg_class reg_dst = reg_class reg_src"
    and m: "RegFile_entry s reg_src = Inr m"
    and d: "RegFile_entry s reg_dst = Inr d"
    and s': "s' = RegFile_set_entry s reg_dst m"
    by (auto simp: Rename_def split: if_splits sum.splits)
  have dst': "RegFile_entry s' reg_dst = Inr m"
    unfolding s' by (rule RegFile_entry_set_entry [OF d])
  have copy: "GetReg_result convert rank vs s' reg_dst F = GetReg_result convert rank vs s reg_src F" for F
    by (rule GetReg_result_cong [OF cls]) (simp add: dst' m)
  have src': "RegFile_entry s' reg_src = RegFile_entry s reg_src"
  proof (cases "reg_src = reg_dst")
    case True
    with dst' m show ?thesis by simp
  next
    case False
    then show ?thesis unfolding s' by (rule RegFile_entry_set_entry_other)
  qed
  have later: "RegFile_entry s'' reg_src = RegFile_entry s' reg_src
      \<and> (\<forall>G. GetReg_result convert rank vs s'' reg_src G = GetReg_result convert rank vs s' reg_src G)"
    if ne: "reg_dst \<noteq> reg_src" and set: "SetReg vs s' reg_dst F V2 True = Inr s''" for F V2 s''
  proof -
    from set obtain m' where "s'' = RegFile_set_entry s' reg_dst m'"
      by (auto simp: SetReg_def split: option.splits sum.splits)
    moreover from ne have "reg_src \<noteq> reg_dst" by blast
    ultimately have e: "RegFile_entry s'' reg_src = RegFile_entry s' reg_src"
      by (simp add: RegFile_entry_set_entry_other)
    have "GetReg_result convert rank vs s'' reg_src G = GetReg_result convert rank vs s' reg_src G" for G
      by (rule GetReg_result_cong [OF refl e])
    with e show ?thesis by blast
  qed
  show ?thesis
  proof (intro conjI allI impI)
    fix F show "GetReg_result convert rank vs s' reg_dst F = GetReg_result convert rank vs s reg_src F"
      by (rule copy)
  next
    show "RegFile_entry s' reg_src = RegFile_entry s reg_src" by (rule src')
  next
    fix F V2 s'' assume "reg_dst \<noteq> reg_src" "SetReg vs s' reg_dst F V2 True = Inr s''"
    from later [OF this] show "RegFile_entry s'' reg_src = RegFile_entry s' reg_src" by blast
  next
    fix F V2 s'' G assume "reg_dst \<noteq> reg_src" "SetReg vs s' reg_dst F V2 True = Inr s''"
    from later [OF this] show "GetReg_result convert rank vs s'' reg_src G
                  = GetReg_result convert rank vs s' reg_src G" by blast
  qed
qed

lemma RegClass_table_exists: "\<exists>t. RegClass_table vs c = Some t"
  unfolding RegClass_table_eq
  by (rule ValueMap_table_exists [OF RegClass_facets_is_facet])

lemma RegFile_entry_in_range:
  "reg_index reg < length (RegClass_regs s (reg_class reg)) \<Longrightarrow> \<exists>m. RegFile_entry s reg = Inr m"
  by (simp add: RegFile_entry_def)

lemma SetReg_succeeds:
  assumes wf: "RegFile_wf vs s"
    and reg: "reg_index reg < length (RegClass_regs s (reg_class reg))"
    and F: "F \<in> set (RegClass_facets vs (reg_class reg))"
  shows "\<exists>s'. SetReg vs s reg F x clear_facets = Inr s'"
proof -
  let ?E = "RegClass_facets vs (reg_class reg)"
  from RegClass_table_exists obtain t where t: "RegClass_table vs (reg_class reg) = Some t" ..
  then have tab: "ValueMap_table vs ?E = Some t" by (simp add: RegClass_table_eq)
  from RegFile_entry_in_range [OF reg] obtain m where m: "RegFile_entry s reg = Inr m" ..
  from RegFile_entry_wf [OF wf m] have len: "length (vm_values m) = length ?E"
    by (simp add: ValueMap_wf_def)
  from ValueMap_at_supported [OF tab F] obtain i
    where i: "i < length ?E" "ValueMap_at vs t F = Inr i" by blast
  then have "\<exists>m'. ValueMap_put vs t (if clear_facets then ValueMap_clear m else m) F x = Inr m'"
    by (simp add: ValueMap_put_def ValueMap_clear_def len)
  then show ?thesis
    by (auto simp: SetReg_def t m)
qed

lemma Rename_succeeds:
  assumes "reg_class reg_dst = reg_class reg_src"
    and "reg_index reg_dst < length (RegClass_regs s (reg_class reg_dst))"
    and "reg_index reg_src < length (RegClass_regs s (reg_class reg_src))"
  shows "\<exists>s'. Rename s reg_dst reg_src = Inr s'"
  using assms by (simp add: Rename_def RegFile_entry_def)

text \<open>
  Claim C1. In a register file of the sizes the types fix, for every register \<open>R\<close> of it,
  every facet \<open>F\<close> that the class of \<open>R\<close> supports and every value \<open>V\<close>:
  \<open>SetValue(R, F, V, true)\<close> succeeds, and after it \<open>GetValue(R, F)\<close> returns \<open>V\<close> itself
  and leaves the register file as it is. For every other supported facet \<open>G\<close> of the
  class the slot is empty, and \<open>GetValue(R, G)\<close> returns the conversion of \<open>V\<close> from \<open>F\<close>
  to \<open>G\<close>, or the failure of that conversion: a result in which nothing of the register
  file before the \<open>SetValue\<close> call appears.
\<close>

theorem SetReg_clear_then_GetReg:
  assumes wf: "RegFile_wf vs s"
    and reg: "reg_index reg < length (RegClass_regs s (reg_class reg))"
    and F: "F \<in> set (RegClass_facets vs (reg_class reg))"
  shows "\<exists>s'. SetReg vs s reg F (Some V) True = Inr s'
    \<and> GetReg convert rank vs s' reg F = Inr (V, s')
    \<and> (\<forall>G\<in>set (RegClass_facets vs (reg_class reg)). G \<noteq> F \<longrightarrow>
          RegFile_slot vs s' reg G = Inr None
        \<and> GetReg_result convert rank vs s' reg G
            = (case convert F G V of None \<Rightarrow> Inl ConversionFailed | Some r \<Rightarrow> Inr r))"
proof -
  from SetReg_succeeds [OF wf reg F] obtain s'
    where set: "SetReg vs s reg F (Some V) True = Inr s'" ..
  from SetReg_clear_GetReg_step [OF wf set] set show ?thesis by blast
qed

theorem SetReg_clear_then_GetReg_witness:
  "RegFile_wf 128 ex_regfile
   \<and> reg_index ex_R0 < length (RegClass_regs ex_regfile (reg_class ex_R0))
   \<and> I16 \<in> set (RegClass_facets 128 (reg_class ex_R0))
   \<and> SetReg 128 ex_regfile ex_R0 I16 (Some 77) True = Inr ex_after_set
   \<and> GetReg ex_convert ex_rank 128 ex_after_set ex_R0 I16 = Inr (77, ex_after_set)
   \<and> I32 \<in> set (RegClass_facets 128 (reg_class ex_R0)) \<and> I32 \<noteq> I16
   \<and> RegFile_slot 128 ex_regfile ex_R0 I32 = Inr (Some 11)
   \<and> RegFile_slot 128 ex_after_set ex_R0 I32 = Inr None
   \<and> GetReg_result ex_convert ex_rank 128 ex_after_set ex_R0 I32 = Inr 2177"
proof -
  have wf: "RegFile_wf 128 ex_regfile" by code_simp
  have reg: "reg_index ex_R0 < length (RegClass_regs ex_regfile (reg_class ex_R0))" by code_simp
  have F: "I16 \<in> set (RegClass_facets 128 (reg_class ex_R0))" by code_simp
  have set: "SetReg 128 ex_regfile ex_R0 I16 (Some 77) True = Inr ex_after_set" by code_simp
  have G: "I32 \<in> set (RegClass_facets 128 (reg_class ex_R0))" "I32 \<noteq> I16" by code_simp+
  have before: "RegFile_slot 128 ex_regfile ex_R0 I32 = Inr (Some 11)" by code_simp
  have conv: "ex_convert I16 I32 77 = Some 2177" by code_simp
  from SetReg_clear_then_GetReg [OF wf reg F, of 77 ex_convert ex_rank] obtain s'
    where s': "SetReg 128 ex_regfile ex_R0 I16 (Some 77) True = Inr s'"
      and same: "GetReg ex_convert ex_rank 128 s' ex_R0 I16 = Inr (77, s')"
      and other: "\<forall>G\<in>set (RegClass_facets 128 (reg_class ex_R0)). G \<noteq> I16 \<longrightarrow>
          RegFile_slot 128 s' ex_R0 G = Inr None
        \<and> GetReg_result ex_convert ex_rank 128 s' ex_R0 G
            = (case ex_convert I16 G 77 of None \<Rightarrow> Inl ConversionFailed | Some r \<Rightarrow> Inr r)"
    by (elim exE conjE) (rule that, assumption+)
  from s' set have eq: "s' = ex_after_set" by simp
  from same have "GetReg ex_convert ex_rank 128 ex_after_set ex_R0 I16 = Inr (77, ex_after_set)"
    by (simp add: eq)
  moreover from other [rule_format, OF G]
  have "RegFile_slot 128 ex_after_set ex_R0 I32 = Inr None"
    and "GetReg_result ex_convert ex_rank 128 ex_after_set ex_R0 I32 = Inr 2177"
    by (simp_all add: conv eq)
  ultimately show ?thesis using wf reg F set G before by blast
qed

text \<open>
  Claim C5. For two registers \<open>dst\<close> and \<open>src\<close> of one class in the register file,
  \<open>Rename(dst, src)\<close> succeeds. For every facet, \<open>GetValue(dst, F)\<close> after the call returns
  what \<open>GetValue(src, F)\<close> returned before it. The map of \<open>src\<close> is unchanged. And when
  \<open>dst\<close> and \<open>src\<close> are not one and the same register, a later
  \<open>SetValue(dst, F, V2, true)\<close> changes neither the map of \<open>src\<close> nor the result of any
  \<open>GetValue(src, G)\<close>.
\<close>

theorem Rename_value_copy:
  assumes cls: "reg_class reg_dst = reg_class reg_src"
    and dst: "reg_index reg_dst < length (RegClass_regs s (reg_class reg_dst))"
    and src: "reg_index reg_src < length (RegClass_regs s (reg_class reg_src))"
  shows "\<exists>s'. Rename s reg_dst reg_src = Inr s'
    \<and> (\<forall>F. GetReg_result convert rank vs s' reg_dst F = GetReg_result convert rank vs s reg_src F)
    \<and> RegFile_entry s' reg_src = RegFile_entry s reg_src
    \<and> (reg_dst \<noteq> reg_src \<longrightarrow>
         (\<forall>F V2 s''. SetReg vs s' reg_dst F V2 True = Inr s'' \<longrightarrow>
            RegFile_entry s'' reg_src = RegFile_entry s' reg_src
          \<and> (\<forall>G. GetReg_result convert rank vs s'' reg_src G
                  = GetReg_result convert rank vs s' reg_src G)))"
proof -
  from Rename_succeeds [OF cls dst src] obtain s'
    where ren: "Rename s reg_dst reg_src = Inr s'" ..
  show ?thesis
    by (rule exI [of _ s'], rule conjI, rule ren, rule Rename_copy_step [OF ren])
qed

theorem Rename_value_copy_witness:
  "reg_class ex_R0 = reg_class ex_R1
   \<and> reg_index ex_R0 < length (RegClass_regs ex_regfile (reg_class ex_R0))
   \<and> reg_index ex_R1 < length (RegClass_regs ex_regfile (reg_class ex_R1))
   \<and> Rename ex_regfile ex_R0 ex_R1 = Inr ex_after_rename
   \<and> GetReg_result ex_convert ex_rank 128 ex_after_rename ex_R0 I8 = Inr 23
   \<and> GetReg_result ex_convert ex_rank 128 ex_regfile ex_R1 I8 = Inr 23
   \<and> RegFile_entry ex_after_rename ex_R1 = RegFile_entry ex_regfile ex_R1
   \<and> ex_R0 \<noteq> ex_R1
   \<and> SetReg 128 ex_after_rename ex_R0 I32 (Some 99) True = Inr ex_after_rename_set
   \<and> GetReg_result ex_convert ex_rank 128 ex_after_rename_set ex_R1 I64 = Inr 20
   \<and> GetReg_result ex_convert ex_rank 128 ex_after_rename ex_R1 I64 = Inr 20"
proof -
  have cls: "reg_class ex_R0 = reg_class ex_R1"
    and dst: "reg_index ex_R0 < length (RegClass_regs ex_regfile (reg_class ex_R0))"
    and src: "reg_index ex_R1 < length (RegClass_regs ex_regfile (reg_class ex_R1))"
    by code_simp+
  have ren: "Rename ex_regfile ex_R0 ex_R1 = Inr ex_after_rename" by code_simp
  have ne: "ex_R0 \<noteq> ex_R1" by code_simp
  have set: "SetReg 128 ex_after_rename ex_R0 I32 (Some 99) True = Inr ex_after_rename_set"
    by code_simp
  have before: "GetReg_result ex_convert ex_rank 128 ex_regfile ex_R1 I8 = Inr 23"
    and between: "GetReg_result ex_convert ex_rank 128 ex_after_rename ex_R1 I64 = Inr 20"
    by code_simp+
  from Rename_value_copy [OF cls dst src, of ex_convert ex_rank 128] obtain s'
    where s': "Rename ex_regfile ex_R0 ex_R1 = Inr s'"
      and copy: "\<forall>F. GetReg_result ex_convert ex_rank 128 s' ex_R0 F
                    = GetReg_result ex_convert ex_rank 128 ex_regfile ex_R1 F"
      and kept: "RegFile_entry s' ex_R1 = RegFile_entry ex_regfile ex_R1"
      and later: "ex_R0 \<noteq> ex_R1 \<longrightarrow>
         (\<forall>F V2 s''. SetReg 128 s' ex_R0 F V2 True = Inr s'' \<longrightarrow>
            RegFile_entry s'' ex_R1 = RegFile_entry s' ex_R1
          \<and> (\<forall>G. GetReg_result ex_convert ex_rank 128 s'' ex_R1 G
                  = GetReg_result ex_convert ex_rank 128 s' ex_R1 G))"
    by (elim exE conjE) (rule that, assumption+)
  from s' ren have eq: "s' = ex_after_rename" by simp
  from copy have "GetReg_result ex_convert ex_rank 128 ex_after_rename ex_R0 I8 = Inr 23"
    by (simp add: eq before)
  moreover from kept have "RegFile_entry ex_after_rename ex_R1 = RegFile_entry ex_regfile ex_R1"
    by (simp add: eq)
  moreover from later [rule_format, OF ne, of I32 "Some 99" ex_after_rename_set] set
  have "GetReg_result ex_convert ex_rank 128 ex_after_rename_set ex_R1 I64 = Inr 20"
    by (simp add: eq between)
  ultimately show ?thesis using cls dst src ren ne set before between by blast
qed

end
